theory Spec2Isabelle
  imports Main "HOL-Library.Word"
begin

section \<open>Python values and exceptions\<close>

text \<open>
  The module \<open>query_tcga.py\<close> passes around untyped Python values: a filter value may be
  \<open>None\<close>, a string, a list or a tuple of strings, and (as any keyword argument) a number
  or a boolean. The exceptions the module can end with are the error values below; every
  function that may raise returns \<open>error + 'a\<close>, with \<open>Inl\<close> for the exception.
  \<open>ValueError\<close> carries its message, because the module reports invalid fields and values
  through the message only.
\<close>

datatype pyval =
    PNone
  | PBool bool
  | PInt int
  | PStr string
  | PList "string list"
  | PTuple "string list"

datatype error =
    ValueError string
  | TypeError
  | IndexError
  | KeyError
  | HTTPError
  | OSError
  | CalledProcessError int

text \<open>Truth value testing, as \<open>not(x)\<close> and \<open>if x\<close> do it.\<close>

fun truthy :: "pyval \<Rightarrow> bool" where
  "truthy PNone = False"
| "truthy (PBool b) = b"
| "truthy (PInt n) = (n \<noteq> 0)"
| "truthy (PStr s) = (s \<noteq> [])"
| "truthy (PList xs) = (xs \<noteq> [])"
| "truthy (PTuple xs) = (xs \<noteq> [])"

text \<open>
  \<open>_convert_to_list(x)\<close>: a falsy \<open>x\<close> gives \<open>None\<close>, a list is returned as it is, a string is
  wrapped, and anything else goes through \<open>list(x)\<close>, which raises \<open>TypeError\<close> on a value
  that is not iterable (a non-zero number, \<open>True\<close>).
\<close>

fun convert_to_list :: "pyval \<Rightarrow> error + pyval" where
  "convert_to_list x =
     (if \<not> truthy x then Inr PNone
      else (case x of
              PList xs \<Rightarrow> Inr (PList xs)
            | PStr s \<Rightarrow> Inr (PList [s])
            | PTuple xs \<Rightarrow> Inr (PList xs)
            | _ \<Rightarrow> Inl TypeError))"

text \<open>Iterating a value (\<open>for el in data_list\<close>): \<open>None\<close> and numbers are not iterable.\<close>

fun py_iter :: "pyval \<Rightarrow> error + string list" where
  "py_iter (PList xs) = Inr xs"
| "py_iter (PTuple xs) = Inr xs"
| "py_iter (PStr s) = Inr (map (\<lambda>c. [c]) s)"
| "py_iter PNone = Inl TypeError"
| "py_iter (PBool b) = Inl TypeError"
| "py_iter (PInt n) = Inl TypeError"

text \<open>\<open>sep.join(xs)\<close>.\<close>

fun join_str :: "string \<Rightarrow> string list \<Rightarrow> string" where
  "join_str sep [] = []"
| "join_str sep [x] = x"
| "join_str sep (x # y # ys) = x @ sep @ join_str sep (y # ys)"

section \<open>Membership check\<close>

definition default_message :: string where
  "default_message = ''At least one value given was invalid''"

text \<open>
  \<open>_verify_data_list(data_list, allowed_values, message)\<close>: the list is normalised with
  \<open>_convert_to_list\<close>, then iterated; when some element is not allowed, the elements that
  are not allowed are collected in input order and joined into the message of a
  \<open>ValueError\<close>.
\<close>

definition verify_data_list :: "pyval \<Rightarrow> string list \<Rightarrow> string \<Rightarrow> error + bool" where
  "verify_data_list data_list allowed_values message =
     (case convert_to_list data_list of
        Inl e \<Rightarrow> Inl e
      | Inr dl \<Rightarrow>
          (case py_iter dl of
             Inl e \<Rightarrow> Inl e
           | Inr els \<Rightarrow>
               if \<not> list_all (\<lambda>el. el \<in> set allowed_values) els
               then Inl (ValueError (message @ '': '' @
                      join_str '', '' (filter (\<lambda>el. el \<notin> set allowed_values) els)))
               else Inr True))"

section \<open>The server\<close>

text \<open>
  The filter expression the module builds as nested dictionaries: a leaf
  \<open>{"op": "in", "content": {"field": f, "value": v}}\<close> and a conjunction
  \<open>{"op": "and", "content": [...]}\<close>.
\<close>

datatype filt =
    In_leaf string pyval
  | And_node "filt list"

text \<open>
  What a \<open>requests.get\<close> gives back. \<open>HTTPFailure\<close> stands for a request that raises (no
  connection, or a status that \<open>raise_for_status\<close> refuses). A JSON body is kept as its
  printed form together with the part the caller reads from it (\<open>None\<close> when the keys the
  caller looks up are not there); \<open>NotJSON\<close> carries the decoder's message.
\<close>

datatype 'a reply = HTTPFailure | Reply 'a

datatype 'a json_body = JSON string "'a option" | NotJSON string

text \<open>
  The remote API, as the functions of the module see it: the keys of \<open>_mapping\<close> of an
  endpoint, the bucket keys of a facet (endpoint, project filter, facet name), the page
  count of a search (filters, size) and the manifest text of a search (filters, size,
  from). The filters are passed as the tree that \<open>json.dumps\<close> serialises. Text is a list of
  Unicode code points. The server answers the same request the same way.

  The page indices that \<open>np.arange\<close> produces are 64-bit numpy integers (on the Unix
  systems whose paths the module names), and a product or
  sum with one of them is again a 64-bit integer that wraps around. Page sizes and page
  counts are therefore values of \<open>int64\<close>: integers within the 64-bit range, read as signed
  (\<open>sint\<close>) where Python prints or compares them.
\<close>

type_synonym int64 = "64 word"

record server =
  mapping_keys :: "string \<Rightarrow> string list json_body reply"
  facet_buckets :: "string \<Rightarrow> filt option \<Rightarrow> string \<Rightarrow> string list json_body reply"
  pagination_pages :: "filt \<Rightarrow> int \<Rightarrow> int64 json_body reply"
  manifest_text :: "filt \<Rightarrow> int \<Rightarrow> int \<Rightarrow> nat list reply"

text \<open>
  \<open>_raise_error_parsing_result(response)\<close>: the first \<open>raise\<close> sits inside a \<open>try\<close> whose bare
  \<open>except\<close> catches it, so the error that leaves the function is always the second one,
  unless \<open>response.json()\<close> itself fails with the decoder's \<open>ValueError\<close>.
\<close>

fun raise_error_parsing_result :: "'a json_body \<Rightarrow> error" where
  "raise_error_parsing_result (JSON printed part) =
     ValueError (''Server responded with: '' @ printed)"
| "raise_error_parsing_result (NotJSON m) = ValueError m"

text \<open>The \<open>try: ... response.json()[...] except: _raise_error_parsing_result(response)\<close> idiom.\<close>

fun read_json :: "'a json_body reply \<Rightarrow> error + 'a" where
  "read_json HTTPFailure = Inl HTTPError"
| "read_json (Reply (JSON printed (Some x))) = Inr x"
| "read_json (Reply body) = Inl (raise_error_parsing_result body)"

section \<open>Field validator\<close>

definition VALID_ENDPOINTS :: "string list" where
  "VALID_ENDPOINTS = [''files'', ''projects'', ''cases'', ''annotations'']"

definition list_valid_fields :: "server \<Rightarrow> string \<Rightarrow> error + string list" where
  "list_valid_fields srv endpoint_name =
     (case verify_data_list (PList [endpoint_name]) VALID_ENDPOINTS default_message of
        Inl e \<Rightarrow> Inl e
      | Inr ok \<Rightarrow> read_json (mapping_keys srv endpoint_name))"

text \<open>\<open>s.startswith(sub)\<close> and \<open>s.find(sub)\<close>: the lowest index of \<open>sub\<close> in \<open>s\<close>, or \<open>-1\<close>.\<close>

definition startswith :: "string \<Rightarrow> string \<Rightarrow> bool" where
  "startswith s sub = (take (length sub) s = sub)"

fun py_find :: "string \<Rightarrow> string \<Rightarrow> int" where
  "py_find [] sub = (if sub = [] then 0 else - 1)"
| "py_find (c # cs) sub =
     (if startswith (c # cs) sub then 0
      else (let r = py_find cs sub in if r < 0 then - 1 else r + 1))"

text \<open>\<open>_search_for_field\<close> keeps the fields where \<open>find\<close> is greater than zero.\<close>

definition search_for_field :: "server \<Rightarrow> string \<Rightarrow> string \<Rightarrow> error + string list" where
  "search_for_field srv search_string endpoint_name =
     (case list_valid_fields srv endpoint_name of
        Inl e \<Rightarrow> Inl e
      | Inr field_names \<Rightarrow>
          Inr (filter (\<lambda>field. py_find field search_string > 0) field_names))"

text \<open>\<open>s.replace(old, '')\<close>: every occurrence of \<open>old\<close>, left to right, is removed.\<close>

function remove_all :: "string \<Rightarrow> string \<Rightarrow> string" where
  "remove_all old [] = []"
| "remove_all old (c # cs) =
     (if old = [] then c # cs
      else if startswith (c # cs) old then remove_all old (drop (length old) (c # cs))
      else c # remove_all old cs)"
  by pat_completeness auto
termination
  by (relation "measure (\<lambda>(old, s). length s)") auto

definition project_id_field :: string where
  "project_id_field = ''cases.project.project_id''"

text \<open>
  \<open>_list_valid_options\<close>: \<open>project_name\<close> is \<open>None\<close> or a string, and the empty string counts
  as no project.
\<close>

definition list_valid_options ::
  "server \<Rightarrow> string \<Rightarrow> string \<Rightarrow> string option \<Rightarrow> bool \<Rightarrow> error + string list" where
  "list_valid_options srv field_name endpoint_name project_name strip_endpoint_from_field_name =
     (let filt_project =
            (case project_name of
               None \<Rightarrow> None
             | Some p \<Rightarrow> if p = [] then None else Some (In_leaf project_id_field (PList [p])));
          field_name' =
            (if strip_endpoint_from_field_name
             then remove_all (endpoint_name @ ''.'') field_name else field_name)
      in read_json (facet_buckets srv endpoint_name filt_project field_name'))"

definition invalid_field_message :: "string \<Rightarrow> string list \<Rightarrow> string" where
  "invalid_field_message given matches =
     ''Field given was not valid: '' @ given @ ''. '' @ [CHR 0x0A] @
     '' Some close matches: '' @ [CHR 0x0A, CHR 0x09] @
     join_str [CHR 0x0A, CHR 0x09] matches"

text \<open>
  \<open>_verify_field_name\<close>: a \<open>ValueError\<close> of the membership check, or of the field listing
  that is evaluated as its argument, is caught; the handler searches for close matches
  (listing the fields once more) and raises the error that names them. Any other exception
  passes through.
\<close>

definition verify_field_name_handler :: "server \<Rightarrow> string \<Rightarrow> string \<Rightarrow> error + bool" where
  "verify_field_name_handler srv field_name endpoint_name =
     (case search_for_field srv field_name endpoint_name of
        Inl e \<Rightarrow> Inl e
      | Inr possible_matches \<Rightarrow>
          Inl (ValueError (invalid_field_message field_name possible_matches)))"

definition verify_field_name :: "server \<Rightarrow> string \<Rightarrow> string \<Rightarrow> error + bool" where
  "verify_field_name srv field_name endpoint_name =
     (case list_valid_fields srv endpoint_name of
        Inl (ValueError m) \<Rightarrow> verify_field_name_handler srv field_name endpoint_name
      | Inl e \<Rightarrow> Inl e
      | Inr field_names \<Rightarrow>
          (case verify_data_list (PStr field_name) field_names default_message of
             Inl (ValueError m) \<Rightarrow> verify_field_name_handler srv field_name endpoint_name
           | Inl e \<Rightarrow> Inl e
           | Inr found \<Rightarrow> Inr found))"

definition verify_field_values ::
  "server \<Rightarrow> pyval \<Rightarrow> string \<Rightarrow> string \<Rightarrow> string option \<Rightarrow> error + bool" where
  "verify_field_values srv data_list field_name endpoint_name project_name =
     (case verify_field_name srv field_name endpoint_name of
        Inl e \<Rightarrow> Inl e
      | Inr ok \<Rightarrow>
          (case list_valid_options srv field_name endpoint_name project_name True of
             Inl e \<Rightarrow> Inl e
           | Inr valid_options \<Rightarrow> verify_data_list data_list valid_options default_message))"

section \<open>Filter builder\<close>

text \<open>
  \<open>_construct_filter_parameters\<close>: the keyword arguments are the list of (name, value) pairs
  in the order the dictionary iterates them. Each pair is validated and then appended as
  an \<open>in\<close> leaf; an exception ends the loop.
\<close>

fun append_filters ::
  "server \<Rightarrow> string \<Rightarrow> (string \<times> pyval) list \<Rightarrow> filt list \<Rightarrow> error + filt list" where
  "append_filters srv endpoint_name [] content_filters = Inr content_filters"
| "append_filters srv endpoint_name ((field, v) # query_params) content_filters =
     (let field_name = endpoint_name @ ''.'' @ field in
      case convert_to_list v of
        Inl e \<Rightarrow> Inl e
      | Inr data_list \<Rightarrow>
          (case verify_field_values srv data_list field_name endpoint_name None of
             Inl e \<Rightarrow> Inl e
           | Inr ok \<Rightarrow>
               (case convert_to_list v of
                  Inl e \<Rightarrow> Inl e
                | Inr val \<Rightarrow>
                    append_filters srv endpoint_name query_params
                      (content_filters @ [In_leaf field_name val]))))"

definition construct_filter_parameters ::
  "server \<Rightarrow> string \<Rightarrow> string \<Rightarrow> (string \<times> pyval) list \<Rightarrow> error + filt" where
  "construct_filter_parameters srv project_name endpoint_name kwargs =
     (let filt_project = In_leaf project_id_field (PList [project_name]) in
      case append_filters srv endpoint_name kwargs [filt_project] of
        Inl e \<Rightarrow> Inl e
      | Inr content_filters \<Rightarrow> Inr (And_node content_filters))"

fun is_leaf :: "filt \<Rightarrow> bool" where
  "is_leaf (In_leaf f v) = True"
| "is_leaf (And_node fs) = False"

section \<open>Manifest paginator\<close>

text \<open>
  \<open>_compute_start_given_page(page, size)\<close>, as \<open>_get_manifest_once\<close> calls it from the loop
  of \<open>get_manifest\<close>: \<open>page\<close> is a numpy 64-bit integer, so \<open>page*size+1\<close> is computed in
  64 bits and wraps around.
\<close>

definition compute_start_given_page :: "int64 \<Rightarrow> int64 \<Rightarrow> int64" where
  "compute_start_given_page page page_size = page * page_size + 1"

text \<open>The names of the keyword arguments, and the arguments without a given name.\<close>

definition keys :: "(string \<times> pyval) list \<Rightarrow> string list" where
  "keys kwargs = map fst kwargs"

definition without_key :: "string \<Rightarrow> (string \<times> pyval) list \<Rightarrow> (string \<times> pyval) list" where
  "without_key name kwargs = filter (\<lambda>kv. fst kv \<noteq> name) kwargs"

text \<open>
  \<open>_construct_parameters\<close> hands its keyword arguments to
  \<open>_construct_filter_parameters(project_name=project_name, **kwargs)\<close>. A keyword argument
  named \<open>endpoint_name\<close> therefore binds the parameter of that name and is no field
  constraint; without it the endpoint is the default \<open>files\<close>. When the value bound to
  \<open>endpoint_name\<close> is not a string, a call with no further constraint never looks at it,
  and a call with a constraint raises \<open>TypeError\<close>: either while normalising the
  constraint's value, or when \<open>_verify_data_list\<close> joins the endpoint, which is no valid
  endpoint, into its message.
\<close>

definition construct_parameters ::
  "server \<Rightarrow> string \<Rightarrow> int64 \<Rightarrow> (string \<times> pyval) list \<Rightarrow> error + filt \<times> int64" where
  "construct_parameters srv project_name page_size kwargs =
     (case (case map_of kwargs ''endpoint_name'' of
              None \<Rightarrow> construct_filter_parameters srv project_name ''files'' kwargs
            | Some (PStr endpoint_name) \<Rightarrow>
                construct_filter_parameters srv project_name endpoint_name
                  (without_key ''endpoint_name'' kwargs)
            | Some other \<Rightarrow>
                if without_key ''endpoint_name'' kwargs = []
                then Inr (And_node [In_leaf project_id_field (PList [project_name])])
                else Inl TypeError) of
        Inl e \<Rightarrow> Inl e
      | Inr filt \<Rightarrow> Inr (filt, page_size))"

definition get_num_pages ::
  "server \<Rightarrow> string \<Rightarrow> int64 \<Rightarrow> (string \<times> pyval) list \<Rightarrow> error + int64" where
  "get_num_pages srv project_name page_size kwargs =
     (case construct_parameters srv project_name page_size kwargs of
        Inl e \<Rightarrow> Inl e
      | Inr (filters, sz) \<Rightarrow> read_json (pagination_pages srv filters (sint sz)))"

definition get_manifest_once ::
  "server \<Rightarrow> string \<Rightarrow> int64 \<Rightarrow> int64 \<Rightarrow> (string \<times> pyval) list \<Rightarrow> error + nat list" where
  "get_manifest_once srv project_name page_size page kwargs =
     (case construct_parameters srv project_name page_size kwargs of
        Inl e \<Rightarrow> Inl e
      | Inr (filters, sz) \<Rightarrow>
          (let from_param = compute_start_given_page page page_size in
           case manifest_text srv filters (sint sz) (sint from_param) of
             HTTPFailure \<Rightarrow> Inl HTTPError
           | Reply text \<Rightarrow> Inr text))"

text \<open>
  The call \<open>_get_manifest_once(project_name=project_name, page=page, size=size, **kwargs)\<close>
  in the loop of \<open>get_manifest\<close>: a keyword argument named \<open>page\<close> is given twice, which
  raises \<open>TypeError\<close> before the function is entered.
\<close>

definition call_get_manifest_once ::
  "server \<Rightarrow> string \<Rightarrow> int64 \<Rightarrow> int64 \<Rightarrow> (string \<times> pyval) list \<Rightarrow> error + nat list" where
  "call_get_manifest_once srv project_name page_size page kwargs =
     (if ''page'' \<in> set (keys kwargs) then Inl TypeError
      else get_manifest_once srv project_name page_size page kwargs)"

text \<open>
  \<open>str.splitlines()\<close>: the text is cut at every line boundary (line feed, carriage return,
  a carriage return followed by a line feed as one boundary, vertical tab, form feed, the
  file, group and record separators, next line, and the Unicode line and paragraph
  separators); the boundaries are dropped, and a boundary at the very end opens no further
  line.
\<close>

definition LF :: nat where "LF = 10"

definition CR :: nat where "CR = 13"

definition is_line_boundary :: "nat \<Rightarrow> bool" where
  "is_line_boundary c = (c \<in> set [10, 11, 12, 13, 28, 29, 30, 133, 8232, 8233])"

fun splitlines_from :: "nat list \<Rightarrow> nat list \<Rightarrow> nat list list" where
  "splitlines_from line [] = (if line = [] then [] else [line])"
| "splitlines_from line [c] = (if is_line_boundary c then [line] else [line @ [c]])"
| "splitlines_from line (c # d # cs) =
     (if c = CR \<and> d = LF then line # splitlines_from [] cs
      else if is_line_boundary c then line # splitlines_from [] (d # cs)
      else splitlines_from (line @ [c]) (d # cs))"

definition splitlines :: "nat list \<Rightarrow> nat list list" where
  "splitlines text = splitlines_from [] text"

text \<open>\<open>[output.write(line+'\n') for line in response_text]\<close>: what the writes append.\<close>

definition write_lines :: "nat list list \<Rightarrow> nat list" where
  "write_lines response_text = concat (map (\<lambda>line. line @ [LF]) response_text)"

text \<open>
  The loop of \<open>get_manifest\<close> over the pages still to fetch, with the text written so far.
  \<open>del response_text[0]\<close> raises \<open>IndexError\<close> on a page without any line.
\<close>

fun write_pages ::
  "server \<Rightarrow> string \<Rightarrow> int64 \<Rightarrow> (string \<times> pyval) list \<Rightarrow> nat list \<Rightarrow> nat list
     \<Rightarrow> error + nat list" where
  "write_pages srv project_name page_size kwargs [] output = Inr output"
| "write_pages srv project_name page_size kwargs (page # pages) output =
     (case call_get_manifest_once srv project_name page_size (of_nat page) kwargs of
        Inl e \<Rightarrow> Inl e
      | Inr text \<Rightarrow>
          (let response_text = splitlines text in
           if page > 0
           then (case response_text of
                   [] \<Rightarrow> Inl IndexError
                 | first # rest \<Rightarrow>
                     write_pages srv project_name page_size kwargs pages
                       (output @ write_lines rest))
           else write_pages srv project_name page_size kwargs pages
                  (output @ write_lines response_text)))"

text \<open>
  \<open>get_manifest\<close>: \<open>pages\<close> is \<open>None\<close> or an integer; \<open>not(pages)\<close> holds for \<open>None\<close> and for
  zero. \<open>np.arange(pages)\<close> is \<open>0, ..., pages - 1\<close>, and empty for a negative count. The
  keyword arguments of \<open>get_manifest\<close> never hold the names \<open>project_name\<close>, \<open>size\<close> and
  \<open>pages\<close>, which bind its own parameters.
\<close>

definition get_manifest ::
  "server \<Rightarrow> string \<Rightarrow> int64 \<Rightarrow> int64 option \<Rightarrow> (string \<times> pyval) list \<Rightarrow> error + nat list" where
  "get_manifest srv project_name page_size pages kwargs =
     (case (case pages of
              None \<Rightarrow> get_num_pages srv project_name page_size kwargs
            | Some p \<Rightarrow>
                if p = 0 then get_num_pages srv project_name page_size kwargs else Inr p) of
        Inl e \<Rightarrow> Inl e
      | Inr n \<Rightarrow> write_pages srv project_name page_size kwargs [0..<nat (sint n)] [])"

section \<open>Downloader and verifier\<close>

text \<open>
  A cell of the data frame that \<open>pandas.read_table\<close> builds: pandas infers the type of a
  column, so a cell is a string, a 64-bit integer, or another value that is no string (a
  float, which an empty cell becomes as \<open>NaN\<close>, or a boolean). \<open>NoColumn\<close> stands for a
  frame without the column, where \<open>row[...]\<close> raises \<open>KeyError\<close>.
\<close>

datatype cell = Text string | Int64 int | OtherValue | NoColumn

text \<open>
  The operating system the module runs on, over a state \<open>'w\<close> of the machine: the file
  system calls, the temporary file, \<open>pandas.read_table\<close> of a file (the rows with their
  \<open>id\<close> and \<open>filename\<close> columns), and the start of a subprocess, which ends with an exit
  status unless the program cannot be started.
\<close>

record manifest_row =
  row_id :: cell
  filename :: cell

datatype outcome = Exited int | NotStarted

record 'w os =
  path_exists :: "'w \<Rightarrow> string \<Rightarrow> bool"
  mkdir :: "string \<Rightarrow> 'w \<Rightarrow> error + 'w"
  spawn :: "string list \<Rightarrow> string \<Rightarrow> 'w \<Rightarrow> outcome \<times> 'w"
  named_temporary_file :: "'w \<Rightarrow> string \<times> 'w"
  write_flush :: "string \<Rightarrow> nat list \<Rightarrow> 'w \<Rightarrow> 'w"
  close_file :: "string \<Rightarrow> 'w \<Rightarrow> 'w"
  read_table :: "'w \<Rightarrow> string \<Rightarrow> error + manifest_row list"

text \<open>A run keeps, beside the machine, the log of the subprocesses it started.\<close>

record 'w machine =
  world :: "'w"
  calls :: "(string list \<times> string) list"

definition GDC_TOKEN_PATH :: string where
  "GDC_TOKEN_PATH = ''/Users/jacquelineburos/Downloads/gdc-user-token.2016-09-12T16-39-34-04-00.txt''"

definition GDC_CLIENT_PATH :: string where
  "GDC_CLIENT_PATH = ''/usr/local/bin/gdc-client''"

text \<open>\<open>os.path.join(a, *p)\<close> and \<open>os.path.split(p)\<close> of \<open>posixpath\<close>.\<close>

definition endswith :: "string \<Rightarrow> string \<Rightarrow> bool" where
  "endswith s suffix = startswith (rev s) (rev suffix)"

fun os_path_join :: "string \<Rightarrow> string list \<Rightarrow> string" where
  "os_path_join path [] = path"
| "os_path_join path (b # p) =
     os_path_join
       (if startswith b ''/'' then b
        else if path = [] \<or> endswith path ''/'' then path @ b
        else path @ ''/'' @ b) p"

definition os_path_split :: "string \<Rightarrow> string \<times> string" where
  "os_path_split p =
     (let tail = rev (takeWhile (\<lambda>c. c \<noteq> CHR ''/'') (rev p));
          head = take (length p - length tail) p
      in (if head \<noteq> [] \<and> head \<noteq> replicate (length head) (CHR ''/'')
          then rev (dropWhile (\<lambda>c. c = CHR ''/'') (rev head)) else head,
          tail))"

fun mkdir_each :: "'w os \<Rightarrow> string list \<Rightarrow> string \<Rightarrow> 'w \<Rightarrow> (error + unit) \<times> 'w" where
  "mkdir_each sys [] sub_dir w = (Inr (), w)"
| "mkdir_each sys (dir_name # dir_names) sub_dir w =
     (let sub_dir' = os_path_join sub_dir [dir_name] in
      if \<not> path_exists sys w sub_dir'
      then (case mkdir sys sub_dir' w of
              Inl e \<Rightarrow> (Inl e, w)
            | Inr w' \<Rightarrow> mkdir_each sys dir_names sub_dir' w')
      else mkdir_each sys dir_names sub_dir' w)"

definition mkdir_if_not_exists :: "'w os \<Rightarrow> string \<Rightarrow> 'w \<Rightarrow> (error + unit) \<times> 'w" where
  "mkdir_if_not_exists sys dir w =
     (if \<not> path_exists sys w dir
      then (case os_path_split dir of (head, tail) \<Rightarrow> mkdir_each sys [head, tail] [] w)
      else (Inr (), w))"

text \<open>
  \<open>subprocess.call\<close> returns the exit status; \<open>subprocess.check_call\<close> returns zero or raises
  \<open>CalledProcessError\<close> with the status; both raise \<open>OSError\<close> when the program cannot be
  started.
\<close>

definition subprocess_call ::
  "'w os \<Rightarrow> string list \<Rightarrow> string \<Rightarrow> 'w machine \<Rightarrow> (error + int) \<times> 'w machine" where
  "subprocess_call sys args cwd st =
     (case spawn sys args cwd (world st) of
        (res, w') \<Rightarrow>
          ((case res of NotStarted \<Rightarrow> Inl OSError | Exited rc \<Rightarrow> Inr rc),
           st\<lparr>world := w', calls := calls st @ [(args, cwd)]\<rparr>))"

definition subprocess_check_call ::
  "'w os \<Rightarrow> string list \<Rightarrow> string \<Rightarrow> 'w machine \<Rightarrow> (error + int) \<times> 'w machine" where
  "subprocess_check_call sys args cwd st =
     (case subprocess_call sys args cwd st of
        (Inl e, st') \<Rightarrow> (Inl e, st')
      | (Inr rc, st') \<Rightarrow> (if rc \<noteq> 0 then Inl (CalledProcessError rc) else Inr 0, st'))"

text \<open>
  \<open>_verify_download_single_file\<close>: \<open>row['id']\<close> and \<open>row['filename']\<close> are looked up, then
  \<open>os.path.join\<close> raises \<open>TypeError\<close> for a component that is no string.
\<close>

definition verify_download_single_file ::
  "'w os \<Rightarrow> 'w \<Rightarrow> manifest_row \<Rightarrow> string \<Rightarrow> error + bool" where
  "verify_download_single_file sys w row data_dir =
     (if row_id row = NoColumn \<or> filename row = NoColumn then Inl KeyError
      else (case (row_id row, filename row) of
              (Text i, Text f) \<Rightarrow>
                (let file_name = os_path_join data_dir [i, f]
                 in Inr (path_exists sys w file_name))
            | other \<Rightarrow> Inl TypeError))"

text \<open>
  \<open>manifest_data.apply(..., axis=1)\<close>: the function is applied to every row in order before
  anything is done with the results, and the first exception ends the call.
\<close>

fun apply_rows ::
  "'w os \<Rightarrow> 'w \<Rightarrow> string \<Rightarrow> manifest_row list \<Rightarrow> error + bool list" where
  "apply_rows sys w data_dir [] = Inr []"
| "apply_rows sys w data_dir (row # manifest_data) =
     (case verify_download_single_file sys w row data_dir of
        Inl e \<Rightarrow> Inl e
      | Inr b \<Rightarrow>
          (case apply_rows sys w data_dir manifest_data of
             Inl e \<Rightarrow> Inl e
           | Inr bs \<Rightarrow> Inr (b # bs)))"

definition verify_download :: "'w os \<Rightarrow> 'w \<Rightarrow> string \<Rightarrow> string \<Rightarrow> error + bool" where
  "verify_download sys w manifest_file data_dir =
     (case read_table sys w manifest_file of
        Inl e \<Rightarrow> Inl e
      | Inr manifest_data \<Rightarrow>
          (case apply_rows sys w data_dir manifest_data of
             Inl e \<Rightarrow> Inl e
           | Inr verification \<Rightarrow>
               if list_all (\<lambda>b. b) verification then Inr True
               else Inl (ValueError ''Some files failed to download.'')))"

text \<open>
  Lines 368 to 370 of \<open>_download_files\<close>: the client is started with
  \<open>subprocess.check_call\<close>, and once more with \<open>subprocess.call\<close> when the value returned by
  \<open>check_call\<close> is truthy.
\<close>

definition call_client ::
  "'w os \<Rightarrow> string \<Rightarrow> string \<Rightarrow> 'w machine \<Rightarrow> (error + unit) \<times> 'w machine" where
  "call_client sys manifest_name data_dir st =
     (let exe_bash = [GDC_CLIENT_PATH, ''download'', ''-m'', manifest_name, ''-t'', GDC_TOKEN_PATH]
      in case subprocess_check_call sys exe_bash data_dir st of
           (Inl e, st') \<Rightarrow> (Inl e, st')
         | (Inr rc, st') \<Rightarrow>
             if rc \<noteq> 0
             then (case subprocess_call sys exe_bash data_dir st' of
                     (Inl e, st'') \<Rightarrow> (Inl e, st'')
                   | (Inr rc', st'') \<Rightarrow> (Inr (), st''))
             else (Inr (), st'))"

text \<open>
  \<open>_download_files\<close>: the directory, the manifest (with \<open>data_category\<close> as the first
  keyword argument), the temporary file, the client, the verification; the \<open>finally\<close>
  clause closes the temporary file on every path through the \<open>try\<close> block. The call
  \<open>get_manifest(..., size=page_size, pages=max_pages, **kwargs)\<close> raises \<open>TypeError\<close> when
  a keyword argument is named \<open>size\<close> or \<open>pages\<close>, which would be given twice.
\<close>

definition download_files ::
  "'w os \<Rightarrow> server \<Rightarrow> string \<Rightarrow> pyval \<Rightarrow> int64 \<Rightarrow> int64 option \<Rightarrow> string
     \<Rightarrow> (string \<times> pyval) list \<Rightarrow> 'w machine \<Rightarrow> (error + bool) \<times> 'w machine" where
  "download_files sys srv project_name data_category page_size max_pages data_dir kwargs st =
     (case mkdir_if_not_exists sys data_dir (world st) of
        (Inl e, w1) \<Rightarrow> (Inl e, st\<lparr>world := w1\<rparr>)
      | (Inr u, w1) \<Rightarrow>
          (case (if ''size'' \<in> set (keys kwargs) \<or> ''pages'' \<in> set (keys kwargs)
                 then Inl TypeError
                 else get_manifest srv project_name page_size max_pages
                        ((''data_category'', data_category) # kwargs)) of
             Inl e \<Rightarrow> (Inl e, st\<lparr>world := w1\<rparr>)
           | Inr manifest_contents \<Rightarrow>
               (case named_temporary_file sys w1 of
                  (name, w2) \<Rightarrow>
                    (let st3 = st\<lparr>world := write_flush sys name manifest_contents w2\<rparr> in
                     case (case call_client sys name data_dir st3 of
                             (Inl e, st4) \<Rightarrow> (Inl e, st4)
                           | (Inr u, st4) \<Rightarrow>
                               (case verify_download sys (world st4) name data_dir of
                                  Inl e \<Rightarrow> (Inl e, st4)
                                | Inr ok \<Rightarrow> (Inr True, st4))) of
                       (res, st5) \<Rightarrow>
                         (res, st5\<lparr>world := close_file sys name (world st5)\<rparr>)))))"

text \<open>
  \<open>download_clinical_files\<close> passes \<open>data_category=['Clinical']\<close> beside its keyword
  arguments, so a keyword argument of that name is given twice.
\<close>

definition download_clinical_files ::
  "'w os \<Rightarrow> server \<Rightarrow> string \<Rightarrow> int64 \<Rightarrow> int64 option \<Rightarrow> string
     \<Rightarrow> (string \<times> pyval) list \<Rightarrow> 'w machine \<Rightarrow> (error + bool) \<times> 'w machine" where
  "download_clinical_files sys srv project_name page_size max_pages data_dir kwargs st =
     (if ''data_category'' \<in> set (keys kwargs) then (Inl TypeError, st)
      else download_files sys srv project_name (PList [''Clinical'']) page_size max_pages
             data_dir kwargs st)"

section \<open>A mocked server and a mocked machine\<close>

text \<open>
  The fixtures of the concrete runs below: a server that knows two fields of the endpoint
  \<open>files\<close> and two data categories, reports three pages, and serves pages of one header
  row and two data rows at the offsets 1, 3 and 5 (page size 2).
\<close>

definition manifest_line :: "string \<Rightarrow> string \<Rightarrow> nat list" where
  "manifest_line i f = map of_char i @ [9] @ map of_char f @ [LF]"

definition mock_page :: "int \<Rightarrow> nat list" where
  "mock_page from_param =
     manifest_line ''id'' ''filename'' @
     (if from_param = 1 then manifest_line ''u1'' ''a.xml'' @ manifest_line ''u2'' ''b.xml''
      else if from_param = 3 then manifest_line ''u3'' ''c.xml'' @ manifest_line ''u4'' ''d.xml''
      else manifest_line ''u5'' ''e.xml'' @ manifest_line ''u6'' ''f.xml'')"

definition mock_server :: server where
  "mock_server =
     \<lparr> mapping_keys = (\<lambda>endpoint. Reply (JSON [] (Some [''files.data_category'', ''files.file_name''])))
     , facet_buckets = (\<lambda>endpoint project facet. Reply (JSON [] (Some [''Clinical'', ''Biospecimen''])))
     , pagination_pages = (\<lambda>filters sz. Reply (JSON [] (Some 3)))
     , manifest_text = (\<lambda>filters sz from_param. Reply (mock_page from_param)) \<rparr>"

text \<open>
  A machine whose state is the list of the paths that exist; the download client exits
  with the given status and downloads nothing, and the manifest read back has the given
  rows.
\<close>

definition mock_os :: "int \<Rightarrow> manifest_row list \<Rightarrow> (string list) os" where
  "mock_os status manifest_rows =
     \<lparr> path_exists = (\<lambda>w p. p \<in> set w)
     , mkdir = (\<lambda>p w. Inr (p # w))
     , spawn = (\<lambda>args cwd w. (Exited status, w))
     , named_temporary_file = (\<lambda>w. (''/tmp/manifest'', ''/tmp/manifest'' # w))
     , write_flush = (\<lambda>name contents w. w)
     , close_file = (\<lambda>name w. removeAll name w)
     , read_table = (\<lambda>w name. Inr manifest_rows) \<rparr>"

definition mock_machine :: "(string list) machine" where
  "mock_machine = \<lparr> world = [''data/gdc''], calls = [] \<rparr>"

definition two_rows :: "manifest_row list" where
  "two_rows =
     [\<lparr>row_id = Text ''u1'', filename = Text ''a.xml''\<rparr>,
      \<lparr>row_id = Text ''u2'', filename = Text ''b.xml''\<rparr>]"

text \<open>
  A manifest with a numeric \<open>id\<close>, which pandas reads as a 64-bit integer, and a machine that
  records in its state the contents written to the temporary file.
\<close>

definition numeric_id_rows :: "manifest_row list" where
  "numeric_id_rows = [\<lparr>row_id = Int64 123, filename = Text ''a.xml''\<rparr>]"

definition recording_os :: "(nat list list) os" where
  "recording_os =
     \<lparr> path_exists = (\<lambda>w p. True)
     , mkdir = (\<lambda>p w. Inr w)
     , spawn = (\<lambda>args cwd w. (Exited 0, w))
     , named_temporary_file = (\<lambda>w. (''/tmp/manifest'', w))
     , write_flush = (\<lambda>name contents w. w @ [contents])
     , close_file = (\<lambda>name w. w)
     , read_table = (\<lambda>w name. Inr []) \<rparr>"

text \<open>The manifest of the three pages of the mocked server.\<close>

definition mock_manifest :: "nat list" where
  "mock_manifest =
     manifest_line ''id'' ''filename'' @
     manifest_line ''u1'' ''a.xml'' @ manifest_line ''u2'' ''b.xml'' @
     manifest_line ''u3'' ''c.xml'' @ manifest_line ''u4'' ''d.xml'' @
     manifest_line ''u5'' ''e.xml'' @ manifest_line ''u6'' ''f.xml''"

section \<open>Predicates of the statements\<close>

text \<open>
  The keyword arguments that a function with the given parameter names can hold in its
  \<open>**kwargs\<close>: a dictionary has no name twice, and a name of a parameter binds the parameter.
\<close>

definition keyword_arguments :: "string list \<Rightarrow> (string \<times> pyval) list \<Rightarrow> bool" where
  "keyword_arguments parameters kwargs =
     (distinct (keys kwargs) \<and> list_all (\<lambda>name. name \<notin> set (keys kwargs)) parameters)"

text \<open>The inputs the specification names for \<open>convertToList\<close>.\<close>

fun list_tuple_str_or_falsy :: "pyval \<Rightarrow> bool" where
  "list_tuple_str_or_falsy (PList xs) = True"
| "list_tuple_str_or_falsy (PTuple xs) = True"
| "list_tuple_str_or_falsy (PStr s) = True"
| "list_tuple_str_or_falsy x = (if truthy x then False else True)"

section \<open>Properties of the normalisation\<close>

text \<open>
  C7. \<open>convertToList\<close> is idempotent: for an input that is a list, a tuple, a string or
  falsy, the call returns a value on which a second call returns the same value; and a
  falsy input gives the absent value \<open>None\<close>, never the empty list.
\<close>

theorem convert_to_list_idempotent:
  "(list_tuple_str_or_falsy x \<longrightarrow>
      (\<exists>y. convert_to_list x = Inr y \<and> convert_to_list y = convert_to_list x))
   \<and> (\<not> truthy x \<longrightarrow>
        convert_to_list x = Inr PNone \<and> convert_to_list x \<noteq> Inr (PList []))"
  by (cases x) auto

theorem convert_to_list_idempotent_witness:
  "list_tuple_str_or_falsy (PTuple [''Clinical'', ''Biospecimen''])
   \<and> convert_to_list (PTuple [''Clinical'', ''Biospecimen''])
       = Inr (PList [''Clinical'', ''Biospecimen''])
   \<and> convert_to_list (PList [''Clinical'', ''Biospecimen''])
       = Inr (PList [''Clinical'', ''Biospecimen''])
   \<and> \<not> truthy (PList [])
   \<and> convert_to_list (PList []) = Inr PNone"
  using convert_to_list_idempotent [of "PTuple [''Clinical'', ''Biospecimen'']"]
    convert_to_list_idempotent [of "PList []"]
  by simp

text \<open>
  C10. For a falsy list of values (the empty list, \<open>None\<close>, the empty string, ...),
  \<open>verifyDataList\<close> neither returns true nor fails with the \<open>ValueError\<close> of an invalid
  value: the normalisation gives \<open>None\<close>, and iterating \<open>None\<close> raises \<open>TypeError\<close>.
\<close>

theorem verify_data_list_falsy:
  "\<not> truthy data_list \<Longrightarrow>
     convert_to_list data_list = Inr PNone
     \<and> verify_data_list data_list allowed_values message = Inl TypeError"
  by (simp add: verify_data_list_def)

theorem verify_data_list_falsy_witness:
  "\<not> truthy (PList [])
   \<and> verify_data_list (PList []) [''Clinical'', ''Biospecimen''] default_message
       = Inl TypeError"
  using verify_data_list_falsy [of "PList []" "[''Clinical'', ''Biospecimen'']" default_message]
  by simp

section \<open>Properties of the filter builder\<close>

lemma append_filters_extends:
  "append_filters srv endpoint_name kwargs content_filters = Inr out \<Longrightarrow>
     \<exists>leaves. out = content_filters @ leaves \<and> list_all is_leaf leaves"
proof (induction kwargs arbitrary: content_filters)
  case Nil
  then show ?case by simp
next
  case (Cons kv kwargs)
  obtain field v where kv: "kv = (field, v)" by (cases kv)
  from Cons.prems kv obtain val where
    step: "append_filters srv endpoint_name kwargs
             (content_filters @ [In_leaf (endpoint_name @ ''.'' @ field) val]) = Inr out"
    by (auto simp: Let_def split: sum.splits if_splits)
  from Cons.IH [OF step] obtain leaves where
    "out = (content_filters @ [In_leaf (endpoint_name @ ''.'' @ field) val]) @ leaves"
    "list_all is_leaf leaves" by blast
  then have "out = content_filters @ (In_leaf (endpoint_name @ ''.'' @ field) val # leaves)
     \<and> list_all is_leaf (In_leaf (endpoint_name @ ''.'' @ field) val # leaves)"
    by simp
  then show ?case by blast
qed

text \<open>
  C4. Whenever \<open>constructFilter\<close> returns, the expression is one \<open>and\<close> node whose first
  child is the leaf \<open>cases.project.project_id in [project]\<close> and whose other children are
  the leaves of the field constraints; with no field constraint it returns (no request is
  made) and the expression has this one leaf only.
\<close>

theorem construct_filter_project_leaf_first:
  "(construct_filter_parameters srv project_name endpoint_name kwargs = Inr f \<longrightarrow>
      (\<exists>leaves. f = And_node (In_leaf ''cases.project.project_id'' (PList [project_name]) # leaves)
         \<and> list_all is_leaf leaves))
   \<and> construct_filter_parameters srv project_name endpoint_name []
       = Inr (And_node [In_leaf ''cases.project.project_id'' (PList [project_name])])"
proof -
  have "\<exists>leaves. f = And_node (In_leaf ''cases.project.project_id'' (PList [project_name]) # leaves)
         \<and> list_all is_leaf leaves"
    if "construct_filter_parameters srv project_name endpoint_name kwargs = Inr f"
  proof -
    from that obtain out where
      out: "append_filters srv endpoint_name kwargs
              [In_leaf project_id_field (PList [project_name])] = Inr out"
      and f: "f = And_node out"
      by (auto simp: construct_filter_parameters_def Let_def split: sum.splits)
    from append_filters_extends [OF out] f show ?thesis
      by (auto simp: project_id_field_def)
  qed
  moreover have "construct_filter_parameters srv project_name endpoint_name []
       = Inr (And_node [In_leaf ''cases.project.project_id'' (PList [project_name])])"
    by (simp add: construct_filter_parameters_def project_id_field_def)
  ultimately show ?thesis by blast
qed

lemma mock_one_constraint:
  "construct_filter_parameters mock_server ''TCGA-BLCA'' ''files''
      [(''data_category'', PStr ''Clinical'')]
    = Inr (And_node [In_leaf ''cases.project.project_id'' (PList [''TCGA-BLCA'']),
                     In_leaf ''files.data_category'' (PList [''Clinical''])])"
  by code_simp

theorem construct_filter_project_leaf_first_witness:
  "construct_filter_parameters mock_server ''TCGA-BLCA'' ''files''
      [(''data_category'', PStr ''Clinical'')]
    = Inr (And_node [In_leaf ''cases.project.project_id'' (PList [''TCGA-BLCA'']),
                     In_leaf ''files.data_category'' (PList [''Clinical''])])
   \<and> (\<exists>leaves. And_node [In_leaf ''cases.project.project_id'' (PList [''TCGA-BLCA'']),
                     In_leaf ''files.data_category'' (PList [''Clinical''])]
        = And_node (In_leaf ''cases.project.project_id'' (PList [''TCGA-BLCA'']) # leaves)
         \<and> list_all is_leaf leaves)
   \<and> construct_filter_parameters mock_server ''TCGA-BLCA'' ''files'' []
       = Inr (And_node [In_leaf ''cases.project.project_id'' (PList [''TCGA-BLCA''])])"
  using construct_filter_project_leaf_first [of mock_server "''TCGA-BLCA''" "''files''"
      "[(''data_category'', PStr ''Clinical'')]"
      "And_node [In_leaf ''cases.project.project_id'' (PList [''TCGA-BLCA'']),
                     In_leaf ''files.data_category'' (PList [''Clinical''])]"]
    mock_one_constraint
  by simp

text \<open>
  A constraint with a falsy value never lets the filter builder return: the value is
  normalised to \<open>None\<close>, and the validation of the values ends with an exception (of the
  field name check, of the option listing, or the \<open>TypeError\<close> of iterating \<open>None\<close>).
\<close>

lemma verify_field_values_None:
  "\<exists>e. verify_field_values srv PNone field_name endpoint_name project_name = Inl e"
  by (auto simp: verify_field_values_def verify_data_list_def split: sum.splits)

lemma append_filters_falsy_value_fails:
  "(field, v) \<in> set kwargs \<Longrightarrow> \<not> truthy v \<Longrightarrow>
     \<exists>e. append_filters srv endpoint_name kwargs content_filters = Inl e"
proof (induction kwargs arbitrary: content_filters)
  case Nil
  then show ?case by simp
next
  case (Cons kv kwargs)
  obtain field' v' where kv: "kv = (field', v')" by (cases kv)
  show ?case
  proof (cases "kv = (field, v)")
    case True
    obtain e where "verify_field_values srv PNone (endpoint_name @ ''.'' @ field) endpoint_name None
        = Inl e"
      using verify_field_values_None by blast
    with True Cons.prems(2) show ?thesis
      by (simp add: Let_def)
  next
    case False
    with Cons.prems have "(field, v) \<in> set kwargs" by simp
    from Cons.IH [OF this Cons.prems(2)]
    have "\<exists>e. append_filters srv endpoint_name kwargs cf = Inl e" for cf .
    then show ?thesis
      using kv by (auto simp: Let_def split: sum.splits)
  qed
qed

lemma construct_filter_falsy_value_never_returns:
  "(field, v) \<in> set kwargs \<Longrightarrow> \<not> truthy v \<Longrightarrow>
     \<exists>e. construct_filter_parameters srv project_name endpoint_name kwargs = Inl e"
proof -
  assume "(field, v) \<in> set kwargs" "\<not> truthy v"
  then obtain e where "append_filters srv endpoint_name kwargs
      [In_leaf project_id_field (PList [project_name])] = Inl e"
    using append_filters_falsy_value_fails by blast
  then show ?thesis
    by (simp add: construct_filter_parameters_def)
qed

text \<open>
  C2. The specification says that a field constraint with an empty or falsy value is
  dropped, so that the filter is the one built without it. The code normalises the value
  to \<open>None\<close> and then fails on it: for the constraint \<open>data_category=[]\<close> on a server that
  knows the field, the field name is accepted and the membership check raises \<open>TypeError\<close>
  when it iterates \<open>None\<close>. No filter is returned, while the call without the constraint
  returns the filter with the project leaf.
\<close>

theorem construct_filter_falsy_value_raises:
  "construct_filter_parameters mock_server ''TCGA-BLCA'' ''files'' [(''data_category'', PList [])]
     = Inl TypeError
   \<and> construct_filter_parameters mock_server ''TCGA-BLCA'' ''files'' []
     = Inr (And_node [In_leaf ''cases.project.project_id'' (PList [''TCGA-BLCA''])])"
  by code_simp

section \<open>Properties of the field validator\<close>

lemma verify_data_list_nonempty_list:
  "vs \<noteq> [] \<Longrightarrow>
     verify_data_list (PList vs) allowed message =
       (if list_all (\<lambda>v. v \<in> set allowed) vs then Inr True
        else Inl (ValueError (message @ '': '' @
               join_str '', '' (filter (\<lambda>v. v \<notin> set allowed) vs))))"
  by (simp add: verify_data_list_def)

text \<open>
  C5. \<open>verifyFieldValues\<close> validates the field name first: a failure of \<open>verifyFieldName\<close> is
  the failure of the call, whatever the values are. For a non-empty list of values, an
  accepted field name and a discovered domain \<open>opts\<close>, if some value is outside the domain
  the call fails with the \<open>ValueError\<close> whose message lists, joined by a comma and a
  space, the values outside the domain in input order: all of them, and none of the valid
  ones.
\<close>

theorem verify_field_values_reports_all_invalid:
  "(verify_field_name srv field_name endpoint_name = Inl e \<longrightarrow>
      verify_field_values srv (PList vs) field_name endpoint_name project_name = Inl e)
   \<and> (vs \<noteq> [] \<and> verify_field_name srv field_name endpoint_name = Inr ok
        \<and> list_valid_options srv field_name endpoint_name project_name True = Inr opts
        \<and> (\<exists>v \<in> set vs. v \<notin> set opts) \<longrightarrow>
        verify_field_values srv (PList vs) field_name endpoint_name project_name
          = Inl (ValueError (''At least one value given was invalid: '' @
                   join_str '', '' (filter (\<lambda>v. v \<notin> set opts) vs)))
        \<and> set (filter (\<lambda>v. v \<notin> set opts) vs) = set vs - set opts)"
proof -
  have "list_all (\<lambda>v. v \<in> set opts) vs \<longleftrightarrow> \<not> (\<exists>v \<in> set vs. v \<notin> set opts)"
    by (simp add: list_all_iff)
  then show ?thesis
    by (auto simp: verify_field_values_def verify_data_list_nonempty_list default_message_def)
qed

lemma mock_field_name_ok:
  "verify_field_name mock_server ''files.data_category'' ''files'' = Inr True"
  by code_simp

lemma mock_field_name_unknown:
  "verify_field_name mock_server ''data_category'' ''files''
     = Inl (ValueError (invalid_field_message ''data_category'' [''files.data_category'']))"
  by code_simp

lemma mock_options:
  "list_valid_options mock_server ''files.data_category'' ''files'' None True
     = Inr [''Clinical'', ''Biospecimen'']"
  by code_simp

theorem verify_field_values_reports_all_invalid_witness:
  "verify_field_values mock_server (PList [''Bogus'', ''Clinical'', ''Wrong''])
      ''files.data_category'' ''files'' None
     = Inl (ValueError ''At least one value given was invalid: Bogus, Wrong'')
   \<and> verify_field_values mock_server (PList [''Bogus'', ''Clinical'', ''Wrong''])
      ''data_category'' ''files'' None
     = Inl (ValueError (invalid_field_message ''data_category'' [''files.data_category'']))"
  using verify_field_values_reports_all_invalid [of mock_server "''files.data_category''"
      "''files''" TypeError "[''Bogus'', ''Clinical'', ''Wrong'']" None True
      "[''Clinical'', ''Biospecimen'']"]
    verify_field_values_reports_all_invalid [of mock_server "''data_category''" "''files''"
      "ValueError (invalid_field_message ''data_category'' [''files.data_category''])"
      "[''Bogus'', ''Clinical'', ''Wrong'']" None]
    mock_field_name_ok mock_field_name_unknown mock_options
  by simp

text \<open>
  What \<open>find\<close> computes: it is zero exactly when the string starts with the searched text,
  and it is not negative exactly when the string contains it. For a non-empty name that is
  not a valid field, \<open>verifyFieldName\<close> fails with the error whose matches are the valid
  fields where \<open>find\<close> is positive.
\<close>

lemma startswith_iff: "startswith s sub \<longleftrightarrow> (\<exists>zs. s = sub @ zs)"
proof
  assume "startswith s sub"
  then have "s = sub @ drop (length sub) s"
    by (metis append_take_drop_id startswith_def)
  then show "\<exists>zs. s = sub @ zs" ..
next
  assume "\<exists>zs. s = sub @ zs"
  then show "startswith s sub"
    by (auto simp: startswith_def)
qed

lemma py_find_zero_iff: "py_find s sub = 0 \<longleftrightarrow> startswith s sub"
proof (cases s)
  case Nil
  then show ?thesis by (auto simp: startswith_def)
next
  case (Cons c cs)
  then show ?thesis by (auto simp: Let_def)
qed

lemma py_find_found_iff: "0 \<le> py_find s sub \<longleftrightarrow> (\<exists>ys zs. s = ys @ sub @ zs)"
proof (induction s)
  case Nil
  then show ?case by simp
next
  case (Cons c cs)
  show ?case
  proof (cases "startswith (c # cs) sub")
    case True
    then obtain zs where "c # cs = [] @ sub @ zs"
      by (auto simp: startswith_iff)
    then have "\<exists>ys zs. c # cs = ys @ sub @ zs" by blast
    with True show ?thesis by simp
  next
    case False
    have "(\<exists>ys zs. c # cs = ys @ sub @ zs) \<longleftrightarrow> (\<exists>ys zs. cs = ys @ sub @ zs)"
    proof
      assume "\<exists>ys zs. c # cs = ys @ sub @ zs"
      then obtain ys zs where d: "c # cs = ys @ sub @ zs" by blast
      with False have "ys \<noteq> []"
        by (auto simp: startswith_iff)
      then obtain ys' where "ys = c # ys'"
        using d by (cases ys) auto
      with d have "cs = ys' @ sub @ zs" by simp
      then show "\<exists>ys zs. cs = ys @ sub @ zs" by blast
    next
      assume "\<exists>ys zs. cs = ys @ sub @ zs"
      then obtain ys zs where "cs = ys @ sub @ zs" by blast
      then have "c # cs = (c # ys) @ sub @ zs" by simp
      then show "\<exists>ys zs. c # cs = ys @ sub @ zs" by blast
    qed
    moreover have "0 \<le> py_find (c # cs) sub \<longleftrightarrow> 0 \<le> py_find cs sub"
      using False by (simp add: Let_def)
    ultimately show ?thesis
      using Cons.IH by simp
  qed
qed

lemma verify_field_name_unknown:
  "list_valid_fields srv endpoint_name = Inr field_names \<Longrightarrow>
   field_name \<noteq> [] \<Longrightarrow> field_name \<notin> set field_names \<Longrightarrow>
   verify_field_name srv field_name endpoint_name
     = Inl (ValueError (invalid_field_message field_name
              (filter (\<lambda>field. 0 < py_find field field_name) field_names)))"
  by (simp add: verify_field_name_def verify_data_list_def verify_field_name_handler_def
      search_for_field_def)

text \<open>
  C6. The specification says that the suggestions of \<open>verifyFieldName\<close> are the valid field
  names that contain the input. The code keeps a field only where \<open>find\<close> is greater than
  zero, so a valid field that starts with the input is left out: for the input
  \<open>files.data\<close> and the valid field \<open>files.data_category\<close> (where \<open>find\<close> is zero) the error
  names no close match.
\<close>

theorem verify_field_name_prefix_not_suggested:
  "verify_field_name mock_server ''files.data'' ''files''
     = Inl (ValueError (invalid_field_message ''files.data'' []))
   \<and> list_valid_fields mock_server ''files'' = Inr [''files.data_category'', ''files.file_name'']
   \<and> py_find ''files.data_category'' ''files.data'' = 0"
  by code_simp

section \<open>Properties of the manifest paginator\<close>

lemma splitlines_from_no_boundary:
  "\<forall>c \<in> set line. \<not> is_line_boundary c \<Longrightarrow>
     \<forall>l \<in> set (splitlines_from line t). \<forall>c \<in> set l. \<not> is_line_boundary c"
proof (induction line t rule: splitlines_from.induct)
  case (1 line)
  then show ?case by simp
next
  case (2 line c)
  then show ?case by simp
next
  case (3 line c d cs)
  show ?case
  proof (cases "c = CR \<and> d = LF")
    case True
    with "3.IH"(1) "3.prems" show ?thesis by simp
  next
    case False
    note not_crlf = this
    show ?thesis
    proof (cases "is_line_boundary c")
      case True
      with not_crlf have "splitlines_from line (c # d # cs) = line # splitlines_from [] (d # cs)"
        by auto
      with not_crlf True "3.IH"(2) "3.prems" show ?thesis by simp
    next
      case False
      with not_crlf have "splitlines_from line (c # d # cs) = splitlines_from (line @ [c]) (d # cs)"
        by auto
      with not_crlf False "3.IH"(3) "3.prems" show ?thesis by simp
    qed
  qed
qed


lemma write_lines_append: "write_lines (xs @ ys) = write_lines xs @ write_lines ys"
  by (simp add: write_lines_def)

lemma splitlines_no_LF: "l \<in> set (splitlines t) \<Longrightarrow> LF \<notin> set l"
proof -
  assume "l \<in> set (splitlines t)"
  with splitlines_from_no_boundary [of "[]" t]
  have "\<forall>c \<in> set l. \<not> is_line_boundary c"
    by (simp add: splitlines_def)
  moreover have "is_line_boundary LF"
    by (simp add: is_line_boundary_def LF_def)
  ultimately show ?thesis by blast
qed

lemma write_pages_all_fetched:
  "\<forall>p \<in> set ps. call_get_manifest_once srv project_name page_size (of_nat p) kwargs
       = Inr (page_text p) \<Longrightarrow>
   \<forall>p \<in> set ps. 0 < p \<longrightarrow> splitlines (page_text p) \<noteq> [] \<Longrightarrow>
   write_pages srv project_name page_size kwargs ps out
     = Inr (out @ write_lines (concat (map
         (\<lambda>p. if p > 0 then tl (splitlines (page_text p)) else splitlines (page_text p)) ps)))"
proof (induction ps arbitrary: out)
  case Nil
  then show ?case by (simp add: write_lines_def)
next
  case (Cons p ps)
  let ?kept = "\<lambda>p. if p > 0 then tl (splitlines (page_text p)) else splitlines (page_text p)"
  have fetch: "call_get_manifest_once srv project_name page_size (of_nat p) kwargs = Inr (page_text p)"
    using Cons.prems(1) by simp
  have rest: "write_pages srv project_name page_size kwargs ps out'
     = Inr (out' @ write_lines (concat (map ?kept ps)))" for out'
    using Cons.IH Cons.prems by simp
  show ?case
  proof (cases "p > 0")
    case True
    with Cons.prems(2) obtain first others where sp: "splitlines (page_text p) = first # others"
      by (cases "splitlines (page_text p)") auto
    with True fetch rest show ?thesis
      by (simp add: write_lines_append)
  next
    case False
    with fetch rest show ?thesis
      by (simp add: write_lines_append)
  qed
qed

lemma write_pages_from_zero:
  assumes n: "0 < n"
    and fetch: "\<forall>p < n. call_get_manifest_once srv project_name page_size (of_nat p) kwargs
                  = Inr (page_text p)"
    and nonempty: "\<forall>p < n. 0 < p \<longrightarrow> splitlines (page_text p) \<noteq> []"
  shows "write_pages srv project_name page_size kwargs [0..<n] []
     = Inr (write_lines (splitlines (page_text 0)
              @ concat (map (\<lambda>p. tl (splitlines (page_text p))) [1..<n])))"
proof -
  let ?kept = "\<lambda>p. if p > 0 then tl (splitlines (page_text p)) else splitlines (page_text p)"
  let ?later = "concat (map (\<lambda>p. tl (splitlines (page_text p))) [1..<n])"
  have pages: "[0..<n] = 0 # [1..<n]"
    using n by (simp add: upt_conv_Cons)
  have later: "map ?kept [Suc 0..<n] = map (\<lambda>p. tl (splitlines (page_text p))) [Suc 0..<n]"
    by simp
  have kept: "concat (map ?kept [0..<n]) = splitlines (page_text 0) @ ?later"
    by (simp add: pages later)
  have "\<forall>p \<in> set [0..<n]. call_get_manifest_once srv project_name page_size (of_nat p) kwargs
          = Inr (page_text p)"
    using fetch by simp
  moreover have "\<forall>p \<in> set [0..<n]. 0 < p \<longrightarrow> splitlines (page_text p) \<noteq> []"
    using nonempty by simp
  ultimately have "write_pages srv project_name page_size kwargs [0..<n] []
     = Inr ([] @ write_lines (concat (map ?kept [0..<n])))"
    by (rule write_pages_all_fetched)
  then show ?thesis
    using kept by simp
qed

lemma kept_lines_no_LF:
  assumes "line \<in> set (splitlines (page_text 0) @ concat (map (\<lambda>p. tl (splitlines (page_text p))) ps))"
  shows "LF \<notin> set line"
proof -
  from assms consider "line \<in> set (splitlines (page_text 0))"
    | p where "line \<in> set (tl (splitlines (page_text p)))"
    by auto
  then show ?thesis
  proof cases
    case 1
    then show ?thesis by (rule splitlines_no_LF)
  next
    case 2
    then have "line \<in> set (splitlines (page_text p))"
      by (metis list.sel(2) list.set_sel(2))
    then show ?thesis by (rule splitlines_no_LF)
  qed
qed

text \<open>
  C1. \<open>getManifest\<close> with keyword arguments \<open>kwargs\<close> and a page count \<open>pages \<ge> 1\<close>, when
  every page below the count is fetched with text \<open>page_text p\<close> and every page after the
  first has a line to discard: the result is the lines of page 0 (its header first),
  followed by the lines of each later page without its first line, in the order of the
  pages and of the lines within each page, each line followed by one line feed; no line
  contains a line feed, so each line of the output ends with a single one. The run on the
  mocked server (three pages of a header row and two data rows) is the header followed by
  the six data rows in page order.
\<close>

theorem get_manifest_assembly:
  "keyword_arguments [''project_name'', ''size'', ''pages''] kwargs \<Longrightarrow>
   0 < sint pages \<Longrightarrow>
   \<forall>p < nat (sint pages).
      call_get_manifest_once srv project_name page_size (of_nat p) kwargs = Inr (page_text p) \<Longrightarrow>
   \<forall>p < nat (sint pages). 0 < p \<longrightarrow> splitlines (page_text p) \<noteq> [] \<Longrightarrow>
   get_manifest srv project_name page_size (Some pages) kwargs
     = Inr (concat (map (\<lambda>line. line @ [LF])
              (splitlines (page_text 0)
                 @ concat (map (\<lambda>p. tl (splitlines (page_text p))) [1..<nat (sint pages)]))))
   \<and> (\<forall>line \<in> set (splitlines (page_text 0)
                 @ concat (map (\<lambda>p. tl (splitlines (page_text p))) [1..<nat (sint pages)])).
         LF \<notin> set line)"
proof -
  assume pos: "0 < sint pages"
    and fetch: "\<forall>p < nat (sint pages).
      call_get_manifest_once srv project_name page_size (of_nat p) kwargs = Inr (page_text p)"
    and nonempty: "\<forall>p < nat (sint pages). 0 < p \<longrightarrow> splitlines (page_text p) \<noteq> []"
  from pos have given: "pages \<noteq> 0"
    by auto
  from pos have "0 < nat (sint pages)"
    by simp
  from write_pages_from_zero [OF this fetch nonempty] given
  have "get_manifest srv project_name page_size (Some pages) kwargs
     = Inr (write_lines (splitlines (page_text 0)
              @ concat (map (\<lambda>p. tl (splitlines (page_text p))) [1..<nat (sint pages)])))"
    by (simp add: get_manifest_def)
  then show ?thesis
    using kept_lines_no_LF [of _ page_text "[1..<nat (sint pages)]"]
    by (simp add: write_lines_def)
qed

lemma mock_filter_no_constraint:
  "construct_parameters mock_server ''TCGA-BLCA'' page_size []
     = Inr (And_node [In_leaf ''cases.project.project_id'' (PList [''TCGA-BLCA''])], page_size)"
  by (simp add: construct_parameters_def construct_filter_parameters_def project_id_field_def)

lemma mock_manifest_text:
  "manifest_text mock_server filters sz from_param = Reply (mock_page from_param)"
  by (simp add: mock_server_def)

lemma mock_fetch:
  "call_get_manifest_once mock_server ''TCGA-BLCA'' 2 page []
     = Inr (mock_page (sint (page * 2 + 1)))"
  by (simp add: call_get_manifest_once_def keys_def get_manifest_once_def
      mock_filter_no_constraint mock_manifest_text compute_start_given_page_def)

lemma mock_page_lines:
  "splitlines (mock_page 1) =
     [map of_char ''id'' @ [9] @ map of_char ''filename'',
      map of_char ''u1'' @ [9] @ map of_char ''a.xml'',
      map of_char ''u2'' @ [9] @ map of_char ''b.xml'']"
  "splitlines (mock_page 3) =
     [map of_char ''id'' @ [9] @ map of_char ''filename'',
      map of_char ''u3'' @ [9] @ map of_char ''c.xml'',
      map of_char ''u4'' @ [9] @ map of_char ''d.xml'']"
  "splitlines (mock_page 5) =
     [map of_char ''id'' @ [9] @ map of_char ''filename'',
      map of_char ''u5'' @ [9] @ map of_char ''e.xml'',
      map of_char ''u6'' @ [9] @ map of_char ''f.xml'']"
  by (simp_all add: mock_page_def manifest_line_def splitlines_def is_line_boundary_def
      LF_def CR_def)

theorem get_manifest_assembly_witness:
  "get_manifest mock_server ''TCGA-BLCA'' 2 (Some 3) []
     = Inr (manifest_line ''id'' ''filename'' @
            manifest_line ''u1'' ''a.xml'' @ manifest_line ''u2'' ''b.xml'' @
            manifest_line ''u3'' ''c.xml'' @ manifest_line ''u4'' ''d.xml'' @
            manifest_line ''u5'' ''e.xml'' @ manifest_line ''u6'' ''f.xml'')"
proof -
  let ?page_text = "\<lambda>p. mock_page (sint (of_nat p * 2 + 1 :: int64))"
  have three: "nat (sint (3 :: int64)) = 3"
    by simp
  have pages: "0 < sint (3 :: int64)"
    by simp
  have fetch: "\<forall>p < nat (sint (3 :: int64)).
      call_get_manifest_once mock_server ''TCGA-BLCA'' 2 (of_nat p) [] = Inr (?page_text p)"
    by (simp add: mock_fetch)
  have nonempty: "\<forall>p < nat (sint (3 :: int64)). 0 < p \<longrightarrow> splitlines (?page_text p) \<noteq> []"
    unfolding three by (simp add: numeral_3_eq_3 less_Suc_eq mock_page_lines)
  have later: "[1..<3] = [1, 2::nat]"
    by (simp add: numeral_3_eq_3 upt_conv_Cons)
  have no_keywords: "keyword_arguments [''project_name'', ''size'', ''pages''] []"
    by (simp add: keyword_arguments_def keys_def)
  have "concat (map (\<lambda>line. line @ [LF])
          (splitlines (?page_text 0) @ concat (map (\<lambda>p. tl (splitlines (?page_text p))) [1..<3])))
        = manifest_line ''id'' ''filename'' @
            manifest_line ''u1'' ''a.xml'' @ manifest_line ''u2'' ''b.xml'' @
            manifest_line ''u3'' ''c.xml'' @ manifest_line ''u4'' ''d.xml'' @
            manifest_line ''u5'' ''e.xml'' @ manifest_line ''u6'' ''f.xml''"
    unfolding later by (simp add: mock_page_lines manifest_line_def)
  with get_manifest_assembly [of "[]" 3 mock_server "''TCGA-BLCA''" 2 ?page_text,
      OF no_keywords pages fetch nonempty]
  show ?thesis
    by (simp add: three)
qed

lemma get_manifest_zero_is_unset:
  "get_manifest srv project_name page_size (Some 0) kwargs
     = get_manifest srv project_name page_size None kwargs"
  by (simp add: get_manifest_def)

lemma get_manifest_zero_is_reported_count:
  assumes "construct_parameters srv project_name page_size kwargs = Inr (filters, sz)"
    and "pagination_pages srv filters (sint sz) = Reply (JSON printed (Some n))"
    and "n \<noteq> 0"
  shows "get_manifest srv project_name page_size (Some 0) kwargs
     = get_manifest srv project_name page_size (Some n) kwargs"
  using assms by (simp add: get_manifest_def get_num_pages_def)

text \<open>
  C9. \<open>getManifest\<close> with \<open>pages=0\<close> treats the zero as an unset page count. When the
  parameters are built and the server reports the page count \<open>n \<ge> 1\<close> for them, and the
  pages below \<open>n\<close> are fetched as in C1, the call with \<open>pages=0\<close> returns the manifest
  assembled from the \<open>n\<close> pages the server reported, as the call with \<open>pages\<close> unset does; it
  is not the empty manifest when page 0 has a line. \<open>downloadFiles\<close> with \<open>maxPages=0\<close>,
  whose manifest is built with \<open>data_category\<close> as first keyword argument, runs as with
  \<open>maxPages=n\<close>.
\<close>

theorem get_manifest_zero_pages_unset:
  "keyword_arguments [''project_name'', ''size'', ''pages''] kwargs \<Longrightarrow>
   construct_parameters srv project_name page_size kwargs = Inr (filters, sz) \<Longrightarrow>
   pagination_pages srv filters (sint sz) = Reply (JSON printed (Some n)) \<Longrightarrow>
   0 < sint n \<Longrightarrow>
   \<forall>p < nat (sint n).
      call_get_manifest_once srv project_name page_size (of_nat p) kwargs = Inr (page_text p) \<Longrightarrow>
   \<forall>p < nat (sint n). 0 < p \<longrightarrow> splitlines (page_text p) \<noteq> [] \<Longrightarrow>
   get_manifest srv project_name page_size (Some 0) kwargs
     = Inr (concat (map (\<lambda>line. line @ [LF])
              (splitlines (page_text 0)
                 @ concat (map (\<lambda>p. tl (splitlines (page_text p))) [1..<nat (sint n)]))))
   \<and> get_manifest srv project_name page_size None kwargs
     = get_manifest srv project_name page_size (Some 0) kwargs
   \<and> (splitlines (page_text 0) \<noteq> [] \<longrightarrow>
        get_manifest srv project_name page_size (Some 0) kwargs \<noteq> Inr [])
   \<and> (kwargs = (''data_category'', data_category) # extra
        \<and> keyword_arguments
             [''project_name'', ''data_category'', ''page_size'', ''max_pages'', ''data_dir'']
             extra \<longrightarrow>
        download_files sys srv project_name data_category page_size (Some 0) data_dir extra st
          = download_files sys srv project_name data_category page_size (Some n) data_dir extra st)"
proof -
  assume params: "construct_parameters srv project_name page_size kwargs = Inr (filters, sz)"
    and reported: "pagination_pages srv filters (sint sz) = Reply (JSON printed (Some n))"
    and pos: "0 < sint n"
    and fetch: "\<forall>p < nat (sint n).
      call_get_manifest_once srv project_name page_size (of_nat p) kwargs = Inr (page_text p)"
    and nonempty: "\<forall>p < nat (sint n). 0 < p \<longrightarrow> splitlines (page_text p) \<noteq> []"
  let ?lines = "splitlines (page_text 0)
                 @ concat (map (\<lambda>p. tl (splitlines (page_text p))) [1..<nat (sint n)])"
  from pos have n: "n \<noteq> 0"
    by auto
  have count: "get_num_pages srv project_name page_size kwargs = Inr n"
    using params reported by (simp add: get_num_pages_def)
  from pos have "0 < nat (sint n)"
    by simp
  from write_pages_from_zero [OF this fetch nonempty]
  have pages: "write_pages srv project_name page_size kwargs [0..<nat (sint n)] []
     = Inr (write_lines ?lines)" .
  have zero: "get_manifest srv project_name page_size (Some 0) kwargs = Inr (write_lines ?lines)"
    using count pages by (simp add: get_manifest_def)
  have "write_lines ?lines \<noteq> []" if "splitlines (page_text 0) \<noteq> []"
    using that by (cases "splitlines (page_text 0)") (simp_all add: write_lines_def)
  moreover have "download_files sys srv project_name data_category page_size (Some 0) data_dir extra st
          = download_files sys srv project_name data_category page_size (Some n) data_dir extra st"
    if "kwargs = (''data_category'', data_category) # extra"
  proof -
    have same: "get_manifest srv project_name page_size (Some 0)
          ((''data_category'', data_category) # extra)
        = get_manifest srv project_name page_size (Some n)
          ((''data_category'', data_category) # extra)"
      using get_manifest_zero_is_reported_count [OF params reported n] that by simp
    show ?thesis
      unfolding download_files_def same ..
  qed
  ultimately show ?thesis
    using zero get_manifest_zero_is_unset [of srv project_name page_size kwargs]
    by (simp add: write_lines_def)
qed

lemma mock_filter_clinical:
  "construct_parameters mock_server ''TCGA-BLCA'' page_size [(''data_category'', PStr ''Clinical'')]
     = Inr (And_node [In_leaf ''cases.project.project_id'' (PList [''TCGA-BLCA'']),
                      In_leaf ''files.data_category'' (PList [''Clinical''])], page_size)"
  by (simp add: construct_parameters_def mock_one_constraint)

lemma mock_reported_pages:
  "pagination_pages mock_server filters sz = Reply (JSON [] (Some 3))"
  by (simp add: mock_server_def)

lemma mock_fetch_clinical:
  "call_get_manifest_once mock_server ''TCGA-BLCA'' 2 page [(''data_category'', PStr ''Clinical'')]
     = Inr (mock_page (sint (page * 2 + 1)))"
  by (simp add: call_get_manifest_once_def keys_def get_manifest_once_def
      mock_filter_clinical mock_manifest_text compute_start_given_page_def)

lemma mock_three_pages_clinical:
  "get_manifest mock_server ''TCGA-BLCA'' 2 (Some 3) [(''data_category'', PStr ''Clinical'')]
     = Inr mock_manifest"
proof -
  let ?page_text = "\<lambda>p. mock_page (sint (of_nat p * 2 + 1 :: int64))"
  have fetch: "\<forall>p < 3.
      call_get_manifest_once mock_server ''TCGA-BLCA'' 2 (of_nat p)
        [(''data_category'', PStr ''Clinical'')] = Inr (?page_text p)"
    by (simp add: mock_fetch_clinical)
  have nonempty: "\<forall>p < 3. 0 < p \<longrightarrow> splitlines (?page_text p) \<noteq> []"
    by (simp add: numeral_3_eq_3 less_Suc_eq mock_page_lines)
  have later: "[1..<3] = [1, 2::nat]"
    by (simp add: numeral_3_eq_3 upt_conv_Cons)
  have "write_lines (splitlines (?page_text 0) @ concat (map (\<lambda>p. tl (splitlines (?page_text p))) [1..<3]))
        = mock_manifest"
    unfolding later
    by (simp add: mock_page_lines manifest_line_def mock_manifest_def write_lines_def)
  with write_pages_from_zero [of 3 mock_server "''TCGA-BLCA''" 2
      "[(''data_category'', PStr ''Clinical'')]" ?page_text, OF _ fetch nonempty]
  show ?thesis
    by (simp add: get_manifest_def)
qed

theorem get_manifest_zero_pages_unset_witness:
  "get_manifest mock_server ''TCGA-BLCA'' 2 (Some 0) [(''data_category'', PStr ''Clinical'')]
     = Inr mock_manifest
   \<and> get_manifest mock_server ''TCGA-BLCA'' 2 None [(''data_category'', PStr ''Clinical'')]
     = Inr mock_manifest
   \<and> mock_manifest \<noteq> []
   \<and> download_files recording_os mock_server ''TCGA-BLCA'' (PStr ''Clinical'') 2 (Some 0)
        ''data/gdc'' [] \<lparr>world = [], calls = []\<rparr>
      = (Inr True,
         \<lparr>world = [mock_manifest],
          calls = [([GDC_CLIENT_PATH, ''download'', ''-m'', ''/tmp/manifest'', ''-t'',
                     GDC_TOKEN_PATH], ''data/gdc'')]\<rparr>)"
proof -
  let ?kw = "[(''data_category'', PStr ''Clinical'')]"
  let ?page_text = "\<lambda>p. mock_page (sint (of_nat p * 2 + 1 :: int64))"
  have three: "nat (sint (3 :: int64)) = 3"
    by simp
  have pos: "0 < sint (3 :: int64)"
    by simp
  have fetch: "\<forall>p < nat (sint (3 :: int64)).
      call_get_manifest_once mock_server ''TCGA-BLCA'' 2 (of_nat p) ?kw = Inr (?page_text p)"
    by (simp add: mock_fetch_clinical)
  have nonempty: "\<forall>p < nat (sint (3 :: int64)). 0 < p \<longrightarrow> splitlines (?page_text p) \<noteq> []"
    unfolding three by (simp add: numeral_3_eq_3 less_Suc_eq mock_page_lines)
  have first: "splitlines (?page_text 0) \<noteq> []"
    by (simp add: mock_page_lines)
  have later: "[1..<3] = [1, 2::nat]"
    by (simp add: numeral_3_eq_3 upt_conv_Cons)
  have contents: "concat (map (\<lambda>line. line @ [LF])
          (splitlines (?page_text 0) @ concat (map (\<lambda>p. tl (splitlines (?page_text p))) [1..<3])))
        = mock_manifest"
    unfolding later by (simp add: mock_page_lines manifest_line_def mock_manifest_def)
  have run: "download_files recording_os mock_server ''TCGA-BLCA'' (PStr ''Clinical'') 2 (Some 3)
        ''data/gdc'' [] \<lparr>world = [], calls = []\<rparr>
      = (Inr True,
         \<lparr>world = [mock_manifest],
          calls = [([GDC_CLIENT_PATH, ''download'', ''-m'', ''/tmp/manifest'', ''-t'',
                     GDC_TOKEN_PATH], ''data/gdc'')]\<rparr>)"
    by (simp add: download_files_def mkdir_if_not_exists_def keys_def mock_three_pages_clinical
        call_client_def subprocess_check_call_def subprocess_call_def verify_download_def
        recording_os_def)
  have kw_ok: "keyword_arguments [''project_name'', ''size'', ''pages''] ?kw"
    by (simp add: keyword_arguments_def keys_def)
  from get_manifest_zero_pages_unset [of ?kw mock_server "''TCGA-BLCA''" 2 _ 2 "[]" 3 ?page_text
      "PStr ''Clinical''" "[]" recording_os "''data/gdc''" "\<lparr>world = [], calls = []\<rparr>",
      OF kw_ok mock_filter_clinical mock_reported_pages pos fetch nonempty]
  show ?thesis
    using first contents run by (auto simp: three keyword_arguments_def keys_def)
qed

section \<open>Properties of the downloader and the verifier\<close>

text \<open>
  For a data directory and row entries that are not empty and neither start nor end with a
  slash, the path that \<open>os.path.join\<close> builds is the directory, the \<open>id\<close> and the \<open>filename\<close>
  with a slash between them. (An entry that starts with a slash makes \<open>os.path.join\<close> drop
  what stands before it.)
\<close>

lemma os_path_join_plain:
  assumes "data_dir \<noteq> []" "\<not> endswith data_dir ''/''"
    and "i \<noteq> []" "\<not> startswith i ''/''" "\<not> endswith i ''/''"
    and "\<not> startswith f ''/''"
  shows "os_path_join data_dir [i, f] = data_dir @ ''/'' @ i @ ''/'' @ f"
proof -
  have "\<not> endswith (data_dir @ ''/'' @ i) ''/''"
    using assms(3,5) by (cases "rev i") (auto simp: endswith_def startswith_def)
  with assms show ?thesis
    by simp
qed

text \<open>
  For a manifest whose \<open>id\<close> and \<open>filename\<close> cells are all read as strings, \<open>verifyDownload\<close>
  returns true when the file of every row exists at the joined path, and fails with the
  \<open>ValueError\<close> of an incomplete download otherwise.
\<close>

lemma apply_rows_text:
  "apply_rows sys w data_dir (map (\<lambda>(i, f). \<lparr>row_id = Text i, filename = Text f\<rparr>) entries)
     = Inr (map (\<lambda>(i, f). path_exists sys w (os_path_join data_dir [i, f])) entries)"
  by (induction entries) (auto simp: verify_download_single_file_def)

lemma verify_download_text_rows:
  assumes "read_table sys w manifest_file
             = Inr (map (\<lambda>(i, f). \<lparr>row_id = Text i, filename = Text f\<rparr>) entries)"
  shows "verify_download sys w manifest_file data_dir =
     (if \<forall>(i, f) \<in> set entries. path_exists sys w (os_path_join data_dir [i, f])
      then Inr True else Inl (ValueError ''Some files failed to download.''))"
  using assms by (auto simp: verify_download_def apply_rows_text list_all_iff)

lemma verify_download_text_rows_example:
  "verify_download (mock_os 0 two_rows)
      [''data/gdc/u1/a.xml'', ''data/gdc/u2/b.xml''] ''/tmp/manifest'' ''data/gdc'' = Inr True"
  "verify_download (mock_os 0 two_rows)
      [''data/gdc/u1/a.xml''] ''/tmp/manifest'' ''data/gdc''
       = Inl (ValueError ''Some files failed to download.'')"
proof -
  have rows: "read_table (mock_os 0 two_rows) w ''/tmp/manifest''
     = Inr (map (\<lambda>(i, f). \<lparr>row_id = Text i, filename = Text f\<rparr>)
              [(''u1'', ''a.xml''), (''u2'', ''b.xml'')])" for w
    by (simp add: mock_os_def two_rows_def)
  have exists: "path_exists (mock_os 0 two_rows) w p = (p \<in> set w)" for w p
    by (simp add: mock_os_def)
  show "verify_download (mock_os 0 two_rows)
      [''data/gdc/u1/a.xml'', ''data/gdc/u2/b.xml''] ''/tmp/manifest'' ''data/gdc'' = Inr True"
    by (simp add: verify_download_text_rows [OF rows] exists startswith_def endswith_def)
  show "verify_download (mock_os 0 two_rows)
      [''data/gdc/u1/a.xml''] ''/tmp/manifest'' ''data/gdc''
       = Inl (ValueError ''Some files failed to download.'')"
    by (simp add: verify_download_text_rows [OF rows] exists startswith_def endswith_def)
qed

text \<open>
  C8. The specification says that \<open>verifyDownload\<close> returns true exactly when the file of
  every row exists. For a manifest whose \<open>id\<close> column is numeric, pandas reads the cells as
  64-bit integers and \<open>os.path.join\<close> raises \<open>TypeError\<close>: on the row \<open>123, a.xml\<close> with the
  file \<open>data/gdc/123/a.xml\<close> in place, the call neither returns true nor fails with the
  error of an incomplete download.
\<close>

theorem verify_download_numeric_id_raises:
  "verify_download (mock_os 0 numeric_id_rows) [''data/gdc/123/a.xml''] ''/tmp/manifest''
      ''data/gdc'' = Inl TypeError
   \<and> path_exists (mock_os 0 numeric_id_rows) [''data/gdc/123/a.xml''] ''data/gdc/123/a.xml''"
  by (simp add: verify_download_def verify_download_single_file_def mock_os_def
      numeric_id_rows_def)

lemma call_client_starts_client_once:
  "length (calls (snd (call_client sys manifest_name data_dir st))) = Suc (length (calls st))"
  by (simp add: call_client_def subprocess_check_call_def subprocess_call_def Let_def
      split: prod.splits sum.splits outcome.splits)

lemma mock_clinical_manifest:
  "get_manifest mock_server ''TCGA-BLCA'' 2 (Some 1) [(''data_category'', PStr ''Clinical'')]
     = Inr (write_lines (splitlines (mock_page 1)))"
  by (simp add: get_manifest_def mock_fetch_clinical)

text \<open>
  C3. The specification says that \<open>downloadFiles\<close> starts the download client a second
  time when the first start signals a failure. The code asks \<open>subprocess.check_call\<close> for
  the first start, which raises \<open>CalledProcessError\<close> on a non-zero exit status instead of
  returning it: with a client that exits with status 1 the run ends with that error and
  the log holds one start of the client, not two.
\<close>

theorem download_files_failing_client_started_once:
  "download_files (mock_os 1 []) mock_server ''TCGA-BLCA'' (PStr ''Clinical'') 2 (Some 1)
          ''data/gdc'' [] mock_machine
     = (Inl (CalledProcessError 1),
        \<lparr> world = [''data/gdc''],
          calls = [([GDC_CLIENT_PATH, ''download'', ''-m'', ''/tmp/manifest'', ''-t'',
                     GDC_TOKEN_PATH], ''data/gdc'')] \<rparr>)"
  by (simp add: download_files_def mkdir_if_not_exists_def keys_def mock_clinical_manifest
      call_client_def subprocess_check_call_def subprocess_call_def mock_os_def
      mock_machine_def)

end
